theory Spec2Isabelle
  imports Main
begin

section \<open>The cursor input manager (pkg/manager/input/input-cursor/manager.go)\<close>

text \<open>
  The development embeds the \<^verbatim>\<open>InputManager\<close> of package \<^verbatim>\<open>cursor\<close>: its one-time
  initialization, \<^verbatim>\<open>Init\<close>, \<^verbatim>\<open>shutdown\<close>, \<^verbatim>\<open>Create\<close>, \<^verbatim>\<open>lock\<close> and \<^verbatim>\<open>lockResource\<close>.
  Mutation of the manager is explicit state passing: every operation takes the manager
  and returns it updated. Logging has no effect on the state and is left out.
\<close>

subsection \<open>Durations and errors\<close>

text \<open>
  \<^verbatim>\<open>time.Duration\<close> counts nanoseconds in a signed 64-bit integer. The manager only
  compares durations with zero and stores constants, so no arithmetic can overflow and
  the unbounded integers stand for it.
\<close>

type_synonym Duration = int

definition Minute :: Duration where
  "Minute = 60 * 1000000000"

text \<open>
  Go errors are values: \<^verbatim>\<open>errors.New\<close> makes one from a message, \<^verbatim>\<open>sderr.Wrap\<close> puts a
  context message around a cause. A run-time panic (a nil pointer dereference) is the
  third kind of failure a call can end with.
\<close>

datatype error =
    errors_New string
  | sderr_Wrap error string
  | panic string

definition errNoSourceConfigured :: error where
  "errNoSourceConfigured = errors_New ''no source has been configured''"

definition errNoInputRunner :: error where
  "errNoInputRunner = errors_New ''no input runner available''"

definition nil_dereference :: error where
  "nil_dereference = panic ''invalid memory address or nil pointer dereference''"

subsection \<open>Resources and the resource store\<close>

text \<open>
  Modelled from the spec: the \<^verbatim>\<open>resource\<close> and \<^verbatim>\<open>store\<close> types and their methods
  (\<^verbatim>\<open>store.Get\<close>, \<^verbatim>\<open>store.Retain\<close>, \<^verbatim>\<open>store.Release\<close>, \<^verbatim>\<open>resource.Release\<close>, \<^verbatim>\<open>openStore\<close>) and
  the lock of a resource (\<^verbatim>\<open>TryLock\<close>, \<^verbatim>\<open>LockContext\<close>) are not among the source files.
  A Resource is "an exclusive, cancelable lock plus reference count plus an opaque
  persisted payload, identified by a string key"; of these the manager touches the
  key, the lock and the reference count, which are the fields kept here. The lock is
  the boolean "held".
\<close>

record resource =
  key :: string
  res_lock :: bool
  pending :: int

text \<open>
  Modelled from the spec: "\<^verbatim>\<open>tryLock()\<close> (non-blocking, returns success/failure)".
  The result is the success flag and the lock afterwards.
\<close>

definition TryLock :: "bool \<Rightarrow> bool \<times> bool" where
  "TryLock held = (if held then (False, held) else (True, True))"

text \<open>
  Modelled from the spec: the types \<^verbatim>\<open>input.Canceler\<close> and \<^verbatim>\<open>input.Context\<close> are declared
  in package \<^verbatim>\<open>input\<close>, which is not among the source files. The cancellation token is
  the "external cancellation signal" of a blocking point: \<^verbatim>\<open>Err\<close> is \<^verbatim>\<open>None\<close> as long as
  the token has not signalled, and the cancellation error afterwards. Of the context
  of a call, \<^verbatim>\<open>lock\<close> reads the logger and the field \<^verbatim>\<open>Cancelation\<close>.
\<close>

datatype Canceler = Canceler (Err: "error option")

record Context =
  Cancelation :: Canceler

text \<open>
  What ends a blocking wait for a lock that somebody else holds: the holder unlocks,
  the token signals (and then reports the given error), or neither ever happens.
\<close>

datatype wait_end = LockFreed | CancelSignal error | Never

text \<open>
  Modelled from the spec: "\<^verbatim>\<open>lockWithCancellation(token)\<close> (blocks until acquired or the
  token signals, returning a distinguishable cancellation failure in the latter case;
  no partial/spurious acquisition on cancellation)", "guaranteeing no acquisition is
  granted after cancellation fires". \<^verbatim>\<open>None\<close> is the call that blocks forever.
\<close>

definition LockContext :: "Canceler \<Rightarrow> wait_end \<Rightarrow> bool \<Rightarrow> (error option \<times> bool) option" where
  "LockContext canceler w held =
     (case Err canceler of
        Some e \<Rightarrow> Some (Some e, held)
      | None \<Rightarrow>
          if \<not> held then Some (None, True)
          else (case w of
                  LockFreed \<Rightarrow> Some (None, True)
                | CancelSignal e \<Rightarrow> Some (Some e, held)
                | Never \<Rightarrow> None))"

text \<open>
  Modelled from the spec: Resource "\<^verbatim>\<open>release()\<close> decrements" the reference count
  (a count of zero is what makes the Resource a pruning candidate; nothing is deleted).
\<close>

definition resource_Release :: "resource \<Rightarrow> resource" where
  "resource_Release r = r\<lparr>pending := pending r - 1\<rparr>"

text \<open>
  Modelled from the spec: the ResourceStore is the "in-memory registry mapping key to
  Resource", "itself retain/release-counted so that the handle is closed only after
  every holder has released the store".
\<close>

record store =
  persistentStore :: nat
  table :: "string \<rightharpoonup> resource"
  refCount :: int
  handle_closed :: bool

text \<open>
  Modelled from the spec: "\<^verbatim>\<open>get(key)\<close>: returns the Resource for key, creating it on first
  access; always increments the Resource's reference count as a side effect", "created
  (refcount 0 to 1) on first Get(key) for a previously-unseen key".
\<close>

definition store_Get :: "store \<Rightarrow> string \<Rightarrow> resource \<times> store" where
  "store_Get s k =
     (let r = (case table s k of
                 Some r0 \<Rightarrow> r0\<lparr>pending := pending r0 + 1\<rparr>
               | None \<Rightarrow> \<lparr>key = k, res_lock = False, pending = 1\<rparr>)
      in (r, s\<lparr>table := (table s)(k \<mapsto> r)\<rparr>))"

text \<open>
  A resource is a pointer into the table: what a callee does to the resource it got
  for a key is written back under that key.
\<close>

definition store_put :: "store \<Rightarrow> string \<Rightarrow> resource \<Rightarrow> store" where
  "store_put s k r = s\<lparr>table := (table s)(k \<mapsto> r)\<rparr>"

text \<open>
  Modelled from the spec: "\<^verbatim>\<open>retain()\<close> / \<^verbatim>\<open>release()\<close> (store-level): reference-count the
  store's own open handle to the durable backend; the handle is closed exactly when the
  count returns to zero".
\<close>

definition store_Retain :: "store \<Rightarrow> store" where
  "store_Retain s = s\<lparr>refCount := refCount s + 1\<rparr>"

definition store_Release :: "store \<Rightarrow> store" where
  "store_Release s =
     (let n = refCount s - 1
      in s\<lparr>refCount := n, handle_closed := (handle_closed s \<or> n = 0)\<rparr>)"

subsection \<open>The state store behind the manager\<close>

text \<open>
  \<^verbatim>\<open>StateStore\<close> is an interface of an external collaborator. It is modelled by what the
  manager can observe: the outcome of the n-th call of \<^verbatim>\<open>Access()\<close>, the value of
  \<^verbatim>\<open>CleanupInterval()\<close>, and the number of \<^verbatim>\<open>Access()\<close> calls made so far.
\<close>

record StateStore =
  Access :: "nat \<Rightarrow> error + nat"
  CleanupInterval :: Duration
  access_calls :: nat

text \<open>
  Modelled from the spec: \<^verbatim>\<open>openStore\<close> "opens the ResourceStore against the
  durable-store handle"; the manager that opened it is its first holder.
\<close>

definition openStore :: "StateStore \<Rightarrow> string \<Rightarrow> (error + store) \<times> StateStore" where
  "openStore ss prefix =
     (let ss' = ss\<lparr>access_calls := access_calls ss + 1\<rparr>
      in case Access ss (access_calls ss) of
           Inl e \<Rightarrow> (Inl e, ss')
         | Inr h \<Rightarrow>
             (Inr \<lparr>persistentStore = h, table = Map.empty, refCount = 1,
                   handle_closed = False\<rparr>, ss'))"

subsection \<open>Configuration, sources and inputs\<close>

text \<open>A source is what its \<^verbatim>\<open>Name()\<close> returns.\<close>

datatype Source = Source (Name: string)

text \<open>
  Modelled from the spec: the interface \<^verbatim>\<open>Input\<close> of the package is not among the source
  files. The input runner "is an external collaborator whose run contract is out of
  scope"; the manager only tests it for nil and stores it, so a runner is a name.
\<close>

datatype Input = Input string

text \<open>
  A configuration (\<^verbatim>\<open>conf.C\<close>) as far as \<^verbatim>\<open>Create\<close> reads it: the two options it unpacks,
  each possibly absent, and the error \<^verbatim>\<open>Unpack\<close> reports for a malformed configuration.
\<close>

record Config =
  id_option :: "string option"
  clean_timeout_option :: "Duration option"
  malformed :: "error option"

record settings =
  ID :: string
  CleanTimeout :: Duration

text \<open>\<^verbatim>\<open>Unpack\<close> overwrites the fields the configuration sets and keeps the others.\<close>

definition Unpack :: "Config \<Rightarrow> settings \<Rightarrow> error + settings" where
  "Unpack config s =
     (case malformed config of
        Some e \<Rightarrow> Inl e
      | None \<Rightarrow>
          Inr \<lparr>ID = (case id_option config of Some i \<Rightarrow> i | None \<Rightarrow> ID s),
               CleanTimeout = (case clean_timeout_option config of
                                 Some t \<Rightarrow> t | None \<Rightarrow> CleanTimeout s)\<rparr>)"

subsection \<open>The manager\<close>

record InputManager =
  StateStore :: StateStore
  Type :: string
  DefaultCleanTimeout :: Duration
  Configure :: "Config \<Rightarrow> Source list \<times> Input option \<times> error option"
  initOnce :: bool
  initErr :: "error option"
  store :: "store option"

text \<open>
  The managed input \<^verbatim>\<open>Create\<close> returns. Its back-reference to the manager is the
  manager that the operations pass along.
\<close>

record managedInput =
  mi_ID :: string
  sources :: "Source list"
  mi_input :: Input
  cleanTimeout :: Duration

text \<open>The function that \<^verbatim>\<open>init\<close> hands to \<^verbatim>\<open>initOnce.Do\<close>.\<close>

definition init_body :: "InputManager \<Rightarrow> InputManager" where
  "init_body cim =
     (let cim1 = (if DefaultCleanTimeout cim \<le> 0
                  then cim\<lparr>DefaultCleanTimeout := 30 * Minute\<rparr> else cim);
          (r, ss) = openStore (StateStore cim1) (Type cim1);
          cim2 = cim1\<lparr>StateStore := ss\<rparr>
      in case r of
           Inl e \<Rightarrow> cim2\<lparr>initErr := Some e\<rparr>
         | Inr st \<Rightarrow> cim2\<lparr>initErr := None, store := Some st\<rparr>)"

text \<open>
  \<^verbatim>\<open>sync.Once\<close> is its "done" flag: \<^verbatim>\<open>Do\<close> runs the function when the flag is unset and
  sets it. Callers that arrive while the function runs wait for it, so calls of \<^verbatim>\<open>init\<close>
  take effect one after the other.
\<close>

definition init :: "InputManager \<Rightarrow> error option \<times> InputManager" where
  "init cim =
     (let cim' = (if initOnce cim then cim else (init_body cim)\<lparr>initOnce := True\<rparr>)
      in (initErr cim', cim'))"

text \<open>\<^verbatim>\<open>shutdown\<close> releases the manager's store; without a store the call panics.\<close>

definition shutdown :: "InputManager \<Rightarrow> InputManager option" where
  "shutdown cim =
     (case store cim of
        None \<Rightarrow> None
      | Some st \<Rightarrow> Some (cim\<lparr>store := Some (store_Release st)\<rparr>))"

text \<open>
  \<^verbatim>\<open>unison.Group\<close> is external: \<^verbatim>\<open>Go\<close> either starts the task or reports an error.
  A started task is the cleaner's run with the sweep interval the task computes.
\<close>

datatype Group = Group (Go: "error option")

text \<open>
  Modelled from the spec: the type \<^verbatim>\<open>input.Mode\<close> is not among the source files. \<^verbatim>\<open>Init\<close>
  is "only meaningful in run mode (a no-op otherwise)": there is the run mode, and there
  are the other modes.
\<close>

datatype Mode = ModeRun | ModeOther nat

datatype task = cleaner_run Duration

text \<open>The interval the background task of \<^verbatim>\<open>Init\<close> computes before it runs the cleaner.\<close>

definition task_interval :: "InputManager \<Rightarrow> Duration" where
  "task_interval cim =
     (let interval = CleanupInterval (StateStore cim)
      in if interval \<le> 0 then 5 * Minute else interval)"

definition Init :: "Group \<Rightarrow> Mode \<Rightarrow> InputManager \<Rightarrow> error option \<times> InputManager \<times> task option" where
  "Init grp mode cim =
     (if mode \<noteq> ModeRun then (None, cim, None)
      else
        (case init cim of
           (Some err, cim1) \<Rightarrow> (Some err, cim1, None)
         | (None, cim1) \<Rightarrow>
             (case store cim1 of
                None \<Rightarrow> (Some nil_dereference, cim1, None)
              | Some st \<Rightarrow>
                  (let cim2 = cim1\<lparr>store := Some (store_Retain st)\<rparr>
                   in case Go grp of
                        None \<Rightarrow> (None, cim2, Some (cleaner_run (task_interval cim2)))
                      | Some err \<Rightarrow>
                          (let cim3 = cim2\<lparr>store := map_option store_Release (store cim2)\<rparr>
                           in case shutdown cim3 of
                                None \<Rightarrow> (Some nil_dereference, cim3, None)
                              | Some cim4 \<Rightarrow>
                                  (Some (sderr_Wrap err
                                     ''Can not start registry cleanup process''),
                                   cim4, None))))))"

definition Create :: "Config \<Rightarrow> InputManager \<Rightarrow> (error + managedInput) \<times> InputManager" where
  "Create config cim =
     (case init cim of
        (Some err, cim1) \<Rightarrow> (Inl err, cim1)
      | (None, cim1) \<Rightarrow>
          (case Unpack config \<lparr>ID = [], CleanTimeout = DefaultCleanTimeout cim1\<rparr> of
             Inl err \<Rightarrow> (Inl err, cim1)
           | Inr s \<Rightarrow>
               (case Configure cim1 config of
                  (srcs, inp, Some err) \<Rightarrow> (Inl err, cim1)
                | (srcs, inp, None) \<Rightarrow>
                    if length srcs = 0 then (Inl errNoSourceConfigured, cim1)
                    else (case inp of
                            None \<Rightarrow> (Inl errNoInputRunner, cim1)
                          | Some i \<Rightarrow>
                              (Inr \<lparr>mi_ID = ID s, sources = srcs, mi_input = i,
                                    cleanTimeout = CleanTimeout s\<rparr>, cim1)))))"

text \<open>
  \<^verbatim>\<open>lockResource\<close>: the non-blocking attempt first, the cancelable wait only when that
  fails. The result is the error (if any) and the resource afterwards; \<^verbatim>\<open>None\<close> is the
  call that never returns.
\<close>

definition lockResource :: "resource \<Rightarrow> Canceler \<Rightarrow> wait_end \<Rightarrow> (error option \<times> resource) option" where
  "lockResource r canceler w =
     (case TryLock (res_lock r) of
        (True, held) \<Rightarrow> Some (None, r\<lparr>res_lock := held\<rparr>)
      | (False, held) \<Rightarrow>
          (case LockContext canceler w held of
             None \<Rightarrow> None
           | Some (Some err, held') \<Rightarrow> Some (Some err, r\<lparr>res_lock := held'\<rparr>)
           | Some (None, held') \<Rightarrow> Some (None, r\<lparr>res_lock := held'\<rparr>)))"

definition lock :: "Context \<Rightarrow> wait_end \<Rightarrow> string \<Rightarrow> InputManager \<Rightarrow> ((error + resource) \<times> InputManager) option" where
  "lock ctx w k cim =
     (case store cim of
        None \<Rightarrow> Some (Inl nil_dereference, cim)
      | Some st \<Rightarrow>
          (let (r, st1) = store_Get st k
           in case lockResource r (Cancelation ctx) w of
                None \<Rightarrow> None
              | Some (Some err, r') \<Rightarrow>
                  Some (Inl err, cim\<lparr>store := Some (store_put st1 k (resource_Release r'))\<rparr>)
              | Some (None, r') \<Rightarrow>
                  Some (Inr r', cim\<lparr>store := Some (store_put st1 k r')\<rparr>)))"

subsection \<open>Source keys\<close>

text \<open>
  Modelled from the spec: the function that composes the persisted key of a source
  (a method of the managed input) is not among the source files. "Key format:
  \<^verbatim>\<open><namespace>-[<id>]-<sourceName>\<close>; namespace and source name are mandatory; the
  identifier segment is present only when a non-empty id was configured." The key is
  its segments joined by hyphens.
\<close>

fun join_hyphen :: "string list \<Rightarrow> string" where
  "join_hyphen [] = []"
| "join_hyphen [s] = s"
| "join_hyphen (s # t # ss) = s @ ''-'' @ join_hyphen (t # ss)"

definition createSourceID :: "InputManager \<Rightarrow> managedInput \<Rightarrow> Source \<Rightarrow> string" where
  "createSourceID cim inp s =
     join_hyphen ([Type cim]
                  @ (if mi_ID inp \<noteq> [] then [''['' @ mi_ID inp @ '']''] else [])
                  @ [Name s])"

subsection \<open>Repeated initialization\<close>

text \<open>The outcomes of \<open>n\<close> calls of \<^verbatim>\<open>init\<close> in a row, and the manager after the last.\<close>

fun calls_init :: "nat \<Rightarrow> InputManager \<Rightarrow> error option list \<times> InputManager" where
  "calls_init 0 cim = ([], cim)"
| "calls_init (Suc n) cim =
     (case init cim of
        (r, cim1) \<Rightarrow> (case calls_init n cim1 of (rs, cim2) \<Rightarrow> (r # rs, cim2)))"

subsection \<open>Sample managers\<close>

text \<open>
  A state store whose backend opens at every call and reports no cleanup interval, a
  manager for the \<^verbatim>\<open>filestream\<close> type that has not been initialized, and a
  configuration that sets no option.
\<close>

definition memory_backend :: StateStore where
  "memory_backend = \<lparr>Access = (\<lambda>n. Inr 7), CleanupInterval = 0, access_calls = 0\<rparr>"

definition filestream_manager :: InputManager where
  "filestream_manager =
     \<lparr>StateStore = memory_backend, Type = ''filestream'', DefaultCleanTimeout = 0,
      Configure = (\<lambda>c. ([Source ''/var/log/a.log''], Some (Input ''tail''), None)),
      initOnce = False, initErr = None, store = None\<rparr>"

definition plain_config :: Config where
  "plain_config = \<lparr>id_option = None, clean_timeout_option = None, malformed = None\<rparr>"

text \<open>
  A backend whose first \<^verbatim>\<open>Access()\<close> fails and whose later ones would succeed, and the
  manager on top of it.
\<close>

definition registry_unavailable :: error where
  "registry_unavailable = errors_New ''registry unavailable''"

definition flaky_backend :: StateStore where
  "flaky_backend =
     \<lparr>Access = (\<lambda>n. if n = 0 then Inl registry_unavailable else Inr 7),
      CleanupInterval = 1000000000, access_calls = 0\<rparr>"

definition offline_manager :: InputManager where
  "offline_manager = filestream_manager\<lparr>StateStore := flaky_backend\<rparr>"

text \<open>
  Managers whose \<^verbatim>\<open>Configure\<close> callback returns no source and no runner, and a source
  but no runner.
\<close>

definition unconfigured_manager :: InputManager where
  "unconfigured_manager = filestream_manager\<lparr>Configure := (\<lambda>c. ([], None, None))\<rparr>"

definition runnerless_manager :: InputManager where
  "runnerless_manager =
     filestream_manager\<lparr>Configure := (\<lambda>c. ([Source ''/var/log/a.log''], None, None))\<rparr>"

text \<open>
  An initialized manager whose store holds one resource that another collector has
  locked, the error of a cancelled context, and a group that refuses new tasks.
\<close>

definition context_Canceled :: error where
  "context_Canceled = errors_New ''context canceled''"

definition busy_store :: store where
  "busy_store =
     \<lparr>persistentStore = 7,
      table = [''filestream-/var/log/a.log'' \<mapsto>
                 \<lparr>key = ''filestream-/var/log/a.log'', res_lock = True, pending = 1\<rparr>],
      refCount = 1, handle_closed = False\<rparr>"

definition running_manager :: InputManager where
  "running_manager = filestream_manager\<lparr>initOnce := True, store := Some busy_store\<rparr>"

definition group_closed :: error where
  "group_closed = errors_New ''group closed''"

section \<open>Properties\<close>

subsection \<open>Facts about the one-time initialization\<close>

lemma init_eq:
  "init cim = (if initOnce cim then (initErr cim, cim)
               else (initErr (init_body cim), (init_body cim)\<lparr>initOnce := True\<rparr>))"
  by (simp add: init_def Let_def)

lemma init_body_CleanupInterval:
  "CleanupInterval (StateStore (init_body cim)) = CleanupInterval (StateStore cim)"
  by (simp add: init_body_def openStore_def Let_def split: sum.splits prod.splits)

lemma init_CleanupInterval:
  "CleanupInterval (StateStore (snd (init cim))) = CleanupInterval (StateStore cim)"
  by (simp add: init_eq init_body_CleanupInterval)

lemma init_body_DefaultCleanTimeout:
  "DefaultCleanTimeout (init_body cim) =
     (if DefaultCleanTimeout cim \<le> 0 then 30 * Minute else DefaultCleanTimeout cim)"
  by (simp add: init_body_def openStore_def Let_def split: sum.splits prod.splits)

subsection \<open>Init outside run mode\<close>

text \<open>
  C9. For every mode other than run mode, \<^verbatim>\<open>Init\<close> returns nil and hands back the manager
  exactly as it was: the once-flag, the cached error, the store and the state store's
  call count are untouched (nothing was initialized, opened or retained) and no task is
  launched.
\<close>

theorem Init_other_mode_noop:
  "mode \<noteq> ModeRun \<Longrightarrow> Init grp mode cim = (None, cim, None)"
  by (simp add: Init_def)

theorem Init_other_mode_noop_witness:
  "ModeOther 1 \<noteq> ModeRun \<and>
   Init (Group None) (ModeOther 1) filestream_manager = (None, filestream_manager, None)"
  using Init_other_mode_noop [of "ModeOther 1" "Group None" filestream_manager] by simp

subsection \<open>The sweep interval of the cleaner\<close>

text \<open>
  C8. In run mode, when the initialization has succeeded and the group accepts the task,
  \<^verbatim>\<open>Init\<close> succeeds and launches the cleaner; and whenever \<^verbatim>\<open>Init\<close> succeeds in run mode
  it has launched the cleaner. The cleaner runs with the interval the state store's
  \<^verbatim>\<open>CleanupInterval\<close> reports, except that a non-positive reported interval is replaced
  by exactly 5 minutes (300000000000 ns).
\<close>

theorem Init_cleaner_interval:
  "(Init grp ModeRun cim = (None, cim', t) \<longrightarrow>
      t = Some (cleaner_run (if CleanupInterval (StateStore cim) \<le> 0 then 300000000000
                             else CleanupInterval (StateStore cim)))) \<and>
   (fst (init cim) = None \<and> store (snd (init cim)) \<noteq> None \<and> Go grp = None \<longrightarrow>
      fst (Init grp ModeRun cim) = None \<and>
      snd (snd (Init grp ModeRun cim)) =
        Some (cleaner_run (if CleanupInterval (StateStore cim) \<le> 0 then 300000000000
                           else CleanupInterval (StateStore cim))))"
proof -
  obtain e cim1 where i: "init cim = (e, cim1)" by (cases "init cim")
  have ci: "CleanupInterval (StateStore cim1) = CleanupInterval (StateStore cim)"
    using init_CleanupInterval [of cim] i by simp
  have launched: "t = Some (cleaner_run (if CleanupInterval (StateStore cim) \<le> 0
                     then 300000000000 else CleanupInterval (StateStore cim)))"
    if "Init grp ModeRun cim = (None, cim', t)"
    using that i ci
    by (auto simp: Init_def task_interval_def Minute_def Let_def shutdown_def
             split: option.splits)
  have started: "fst (Init grp ModeRun cim) = None \<and>
      snd (snd (Init grp ModeRun cim)) =
        Some (cleaner_run (if CleanupInterval (StateStore cim) \<le> 0 then 300000000000
                           else CleanupInterval (StateStore cim)))"
    if "fst (init cim) = None \<and> store (snd (init cim)) \<noteq> None \<and> Go grp = None"
    using that i ci
    by (auto simp: Init_def task_interval_def Minute_def Let_def)
  from launched started show ?thesis by blast
qed

theorem Init_cleaner_interval_witness:
  "fst (init filestream_manager) = None \<and> store (snd (init filestream_manager)) \<noteq> None \<and>
   Go (Group None) = None \<and>
   fst (Init (Group None) ModeRun filestream_manager) = None \<and>
   snd (snd (Init (Group None) ModeRun filestream_manager)) = Some (cleaner_run 300000000000) \<and>
   fst (Init (Group None) ModeRun
          (filestream_manager\<lparr>StateStore := flaky_backend\<lparr>Access := \<lambda>n. Inr 7\<rparr>\<rparr>)) = None \<and>
   snd (snd (Init (Group None) ModeRun
               (filestream_manager\<lparr>StateStore := flaky_backend\<lparr>Access := \<lambda>n. Inr 7\<rparr>\<rparr>)))
     = Some (cleaner_run 1000000000)"
proof -
  let ?m = "filestream_manager\<lparr>StateStore := flaky_backend\<lparr>Access := \<lambda>n. Inr 7\<rparr>\<rparr>"
  have a: "fst (init filestream_manager) = None" "store (snd (init filestream_manager)) \<noteq> None"
    by (simp_all add: init_eq init_body_def openStore_def filestream_manager_def
                      memory_backend_def)
  have b: "fst (init ?m) = None" "store (snd (init ?m)) \<noteq> None"
    by (simp_all add: init_eq init_body_def openStore_def filestream_manager_def
                      flaky_backend_def)
  have g: "Go (Group None) = None" by simp
  have ia: "CleanupInterval (StateStore filestream_manager) = 0"
    by (simp add: filestream_manager_def memory_backend_def)
  have ib: "CleanupInterval (StateStore ?m) = 1000000000"
    by (simp add: flaky_backend_def)
  from Init_cleaner_interval [of "Group None" filestream_manager]
       Init_cleaner_interval [of "Group None" ?m] a b g ia ib
  show ?thesis by simp
qed

subsection \<open>The clean timeout of a managed input\<close>

text \<open>
  C7. The clean timeout of the managed input that \<^verbatim>\<open>Create\<close> returns is the configured
  \<^verbatim>\<open>clean_timeout\<close> when the configuration gives one and the manager's
  \<^verbatim>\<open>DefaultCleanTimeout\<close> otherwise; and the initialization, when it runs, sets
  \<^verbatim>\<open>DefaultCleanTimeout\<close> to 30 minutes (1800000000000 ns) if it was zero (unset) or
  negative, and leaves it alone if it was positive.
\<close>

theorem Create_cleanTimeout:
  "(Create config cim = (Inr mi, cim') \<longrightarrow>
      cleanTimeout mi = (case clean_timeout_option config of
                           Some t \<Rightarrow> t | None \<Rightarrow> DefaultCleanTimeout cim')) \<and>
   (\<not> initOnce cim \<longrightarrow>
      DefaultCleanTimeout (snd (init cim)) =
        (if DefaultCleanTimeout cim \<le> 0 then 1800000000000 else DefaultCleanTimeout cim))"
proof (intro conjI impI)
  assume c: "Create config cim = (Inr mi, cim')"
  obtain e cim1 where i: "init cim = (e, cim1)" by (cases "init cim")
  from c i show "cleanTimeout mi = (case clean_timeout_option config of
                           Some t \<Rightarrow> t | None \<Rightarrow> DefaultCleanTimeout cim')"
    by (auto simp: Create_def Unpack_def split: option.splits sum.splits prod.splits if_splits)
next
  assume "\<not> initOnce cim"
  then show "DefaultCleanTimeout (snd (init cim)) =
        (if DefaultCleanTimeout cim \<le> 0 then 1800000000000 else DefaultCleanTimeout cim)"
    by (simp add: init_eq init_body_DefaultCleanTimeout Minute_def)
qed

theorem Create_cleanTimeout_witness:
  "(\<exists>mi. fst (Create plain_config filestream_manager) = Inr mi \<and>
          cleanTimeout mi = 1800000000000) \<and>
   (\<exists>mi. fst (Create (plain_config\<lparr>clean_timeout_option := Some 60000000000\<rparr>)
                 filestream_manager) = Inr mi \<and>
          cleanTimeout mi = 60000000000) \<and>
   \<not> initOnce filestream_manager \<and>
   DefaultCleanTimeout (snd (init filestream_manager)) = 1800000000000"
proof -
  let ?mi = "\<lparr>mi_ID = [], sources = [Source ''/var/log/a.log''], mi_input = Input ''tail'',
              cleanTimeout = 1800000000000\<rparr>"
  let ?mj = "\<lparr>mi_ID = [], sources = [Source ''/var/log/a.log''], mi_input = Input ''tail'',
              cleanTimeout = 60000000000\<rparr>"
  let ?c = "plain_config\<lparr>clean_timeout_option := Some 60000000000\<rparr>"
  have a: "Create plain_config filestream_manager = (Inr ?mi, snd (init filestream_manager))"
    by (simp add: Create_def init_eq init_body_def openStore_def Unpack_def Minute_def
                  filestream_manager_def memory_backend_def plain_config_def)
  have b: "Create ?c filestream_manager = (Inr ?mj, snd (init filestream_manager))"
    by (simp add: Create_def init_eq init_body_def openStore_def Unpack_def Minute_def
                  filestream_manager_def memory_backend_def plain_config_def)
  have n: "\<not> initOnce filestream_manager" "DefaultCleanTimeout filestream_manager = 0"
    by (simp_all add: filestream_manager_def)
  from Create_cleanTimeout [of plain_config filestream_manager ?mi "snd (init filestream_manager)"]
       Create_cleanTimeout [of ?c filestream_manager ?mj "snd (init filestream_manager)"]
       a b n
  show ?thesis by (simp add: plain_config_def)
qed

subsection \<open>A cleaner that cannot be launched\<close>

text \<open>
  C6. In run mode, after a successful initialization, if the group refuses to launch the
  cleaner task with an error, \<^verbatim>\<open>Init\<close> returns that error wrapped with the context
  "Can not start registry cleanup process", launches nothing, and has released the store:
  the release after the failed launch undoes the retain taken for the cleaner (the count
  is back at its value before \<^verbatim>\<open>Init\<close>), and \<^verbatim>\<open>shutdown\<close> then drops the manager's own
  reference, so the count ends one below its value before \<^verbatim>\<open>Init\<close> and the handle of a
  store held by the manager alone is closed.
\<close>

theorem Init_launch_failure_releases_store:
  assumes "init cim = (None, cim1)" and "store cim1 = Some st" and "Go grp = Some err"
  shows "\<exists>st'. Init grp ModeRun cim =
            (Some (sderr_Wrap err ''Can not start registry cleanup process''),
             cim1\<lparr>store := Some st'\<rparr>, None) \<and>
          st' = store_Release (store_Release (store_Retain st)) \<and>
          refCount (store_Release (store_Retain st)) = refCount st \<and>
          refCount st' = refCount st - 1 \<and>
          (refCount st = 1 \<longrightarrow> handle_closed st')"
  using assms
  by (simp add: Init_def shutdown_def store_Release_def store_Retain_def Let_def)

theorem Init_launch_failure_releases_store_witness:
  "fst (init filestream_manager) = None \<and>
   (\<exists>st. store (snd (init filestream_manager)) = Some st \<and> refCount st = 1) \<and>
   (\<exists>st' cim'. Init (Group (Some group_closed)) ModeRun filestream_manager =
        (Some (sderr_Wrap group_closed ''Can not start registry cleanup process''), cim', None) \<and>
      store cim' = Some st' \<and> refCount st' = 0 \<and> handle_closed st')"
proof -
  let ?st = "\<lparr>persistentStore = 7, table = Map.empty, refCount = 1, handle_closed = False\<rparr>"
  have s: "store (snd (init filestream_manager)) = Some ?st"
    by (simp add: init_eq init_body_def openStore_def filestream_manager_def memory_backend_def)
  have e: "fst (init filestream_manager) = None"
    by (simp add: init_eq init_body_def openStore_def filestream_manager_def memory_backend_def)
  then have i: "init filestream_manager = (None, snd (init filestream_manager))"
    by (metis prod.collapse)
  have g: "Go (Group (Some group_closed)) = Some group_closed" by simp
  from Init_launch_failure_releases_store [OF i s g] s e
  show ?thesis by auto
qed

subsection \<open>Locking a resource\<close>

lemma lockResource_free:
  "\<not> res_lock r \<Longrightarrow> lockResource r c w = Some (None, r\<lparr>res_lock := True\<rparr>)"
  by (simp add: lockResource_def TryLock_def)

lemma lockResource_held:
  "res_lock r \<Longrightarrow>
   lockResource r c w =
     (case LockContext c w True of
        None \<Rightarrow> None
      | Some (e, h) \<Rightarrow> Some (e, r\<lparr>res_lock := h\<rparr>))"
  by (simp add: lockResource_def TryLock_def split: option.splits)

lemma LockContext_held:
  "LockContext c w True =
     (case Err c of
        Some e \<Rightarrow> Some (Some e, True)
      | None \<Rightarrow> (case w of LockFreed \<Rightarrow> Some (None, True)
                 | CancelSignal e \<Rightarrow> Some (Some e, True)
                 | Never \<Rightarrow> None))"
  by (simp add: LockContext_def)

text \<open>The three situations \<^verbatim>\<open>lock\<close> can find a key in: unseen, free, held.\<close>

lemma lock_fresh:
  assumes "store cim = Some st" and "table st k = None"
  shows "lock ctx w k cim =
           Some (Inr \<lparr>key = k, res_lock = True, pending = 1\<rparr>,
                 cim\<lparr>store := Some (st\<lparr>table := (table st)(k \<mapsto>
                         \<lparr>key = k, res_lock = True, pending = 1\<rparr>)\<rparr>)\<rparr>)"
  using assms by (simp add: lock_def store_Get_def lockResource_free store_put_def Let_def)

lemma lock_free:
  assumes "store cim = Some st" and "table st k = Some r" and "\<not> res_lock r"
  shows "lock ctx w k cim =
           Some (Inr (r\<lparr>pending := pending r + 1, res_lock := True\<rparr>),
                 cim\<lparr>store := Some (st\<lparr>table := (table st)(k \<mapsto>
                         r\<lparr>pending := pending r + 1, res_lock := True\<rparr>)\<rparr>)\<rparr>)"
  using assms by (simp add: lock_def store_Get_def lockResource_free store_put_def Let_def)

lemma lock_held:
  assumes "store cim = Some st" and "table st k = Some r" and "res_lock r"
  shows "lock ctx w k cim =
           (case LockContext (Cancelation ctx) w True of
              None \<Rightarrow> None
            | Some (Some e, h) \<Rightarrow> Some (Inl e, cim)
            | Some (None, h) \<Rightarrow>
                Some (Inr (r\<lparr>pending := pending r + 1, res_lock := True\<rparr>),
                      cim\<lparr>store := Some (st\<lparr>table := (table st)(k \<mapsto>
                              r\<lparr>pending := pending r + 1, res_lock := True\<rparr>)\<rparr>)\<rparr>))"
proof -
  have same: "cim\<lparr>store := Some st\<rparr> = cim"
    using assms(1) by simp
  show ?thesis
    using assms(1,2)
    by (simp add: lock_def store_Get_def lockResource_held assms(3) LockContext_held
                  resource_Release_def map_upd_triv same store_put_def Let_def
             split: option.splits wait_end.splits)
qed

text \<open>
  C10. When the lock of a key is free (the key is unseen, or its resource is not locked),
  \<^verbatim>\<open>lock\<close> succeeds whatever the cancellation token and whatever would have ended a wait:
  its outcome is the same for every token, so the token is not consulted, and in
  particular an already cancelled token still gets the resource, locked and retained
  (its count one above the count before, or 1 for a new resource), not a cancellation
  error.
\<close>

theorem lock_uncontended_ignores_cancelation:
  assumes "store cim = Some st" and "\<forall>r. table st k = Some r \<longrightarrow> \<not> res_lock r"
  shows "\<exists>r'. lock ctx w k cim =
                Some (Inr r', cim\<lparr>store := Some (st\<lparr>table := (table st)(k \<mapsto> r')\<rparr>)\<rparr>) \<and>
              lock \<lparr>Cancelation = Canceler (Some e)\<rparr> w' k cim = lock ctx w k cim \<and>
              res_lock r' \<and>
              pending r' = (case table st k of None \<Rightarrow> 1 | Some r \<Rightarrow> pending r + 1)"
proof (cases "table st k")
  case None
  with assms(1) show ?thesis by (simp add: lock_fresh)
next
  case (Some r)
  with assms have "\<not> res_lock r" by simp
  with assms(1) Some show ?thesis by (simp add: lock_free)
qed

theorem lock_uncontended_ignores_cancelation_witness:
  "store (snd (init filestream_manager)) \<noteq> None \<and>
   (\<exists>r' cim'. lock \<lparr>Cancelation = Canceler (Some context_Canceled)\<rparr> Never
        ''filestream-/var/log/a.log'' (snd (init filestream_manager)) = Some (Inr r', cim') \<and>
      res_lock r' \<and> pending r' = 1)"
proof -
  let ?st = "\<lparr>persistentStore = 7, table = Map.empty, refCount = 1, handle_closed = False\<rparr>"
  have h1: "store (snd (init filestream_manager)) = Some ?st"
    by (simp add: init_eq init_body_def openStore_def filestream_manager_def memory_backend_def)
  have h2: "\<forall>r. table ?st ''filestream-/var/log/a.log'' = Some r \<longrightarrow> \<not> res_lock r"
    by simp
  from lock_uncontended_ignores_cancelation [OF h1 h2,
      where ctx = "\<lparr>Cancelation = Canceler (Some context_Canceled)\<rparr>" and w = Never
        and e = context_Canceled and w' = Never]
  obtain r' where
    "lock \<lparr>Cancelation = Canceler (Some context_Canceled)\<rparr> Never
        ''filestream-/var/log/a.log'' (snd (init filestream_manager)) =
       Some (Inr r', snd (init filestream_manager)
          \<lparr>store := Some (?st\<lparr>table := (table ?st)(''filestream-/var/log/a.log'' \<mapsto> r')\<rparr>)\<rparr>)"
    and "res_lock r'" and "pending r' = 1"
    by auto
  with h1 show ?thesis by blast
qed

text \<open>
  C2. On an initialized manager, when the key's resource is locked by somebody else and
  the token is cancelled before the lock is acquired (it was cancelled already, or it
  signals during the wait), \<^verbatim>\<open>lock\<close> returns the token's cancellation error and leaves the
  manager exactly as it was. Conversely, whenever \<^verbatim>\<open>lock\<close> ends with an error, that is
  what happened: the resource existed and was locked, the error is the token's, and
  afterwards the resource is as before the call: its reference count has its old value
  (the retain of \<^verbatim>\<open>Get\<close> is undone by \<^verbatim>\<open>Release\<close>) and its lock is in the state it was in,
  held by the other party. The caller gets no resource and no lock.
\<close>

theorem lock_canceled_restores_refcount:
  assumes "store cim = Some st"
  shows "(table st k = Some r \<and> res_lock r \<and>
            (Err (Cancelation ctx) = Some err \<or>
             Err (Cancelation ctx) = None \<and> w = CancelSignal err) \<longrightarrow>
          lock ctx w k cim = Some (Inl err, cim)) \<and>
         (lock ctx w k cim = Some (Inl err, cim') \<longrightarrow>
          (\<exists>r'. table st k = Some r' \<and> res_lock r' \<and>
                (\<exists>st'. store cim' = Some st' \<and> table st' k = Some r')) \<and>
          (Err (Cancelation ctx) = Some err \<or>
             Err (Cancelation ctx) = None \<and> w = CancelSignal err) \<and>
          cim' = cim)"
proof (intro conjI impI)
  assume "table st k = Some r \<and> res_lock r \<and>
            (Err (Cancelation ctx) = Some err \<or>
             Err (Cancelation ctx) = None \<and> w = CancelSignal err)"
  with assms show "lock ctx w k cim = Some (Inl err, cim)"
    by (auto simp: lock_held LockContext_held)
next
  assume l: "lock ctx w k cim = Some (Inl err, cim')"
  have "(\<exists>r'. table st k = Some r' \<and> res_lock r' \<and>
                (\<exists>st'. store cim' = Some st' \<and> table st' k = Some r')) \<and>
          (Err (Cancelation ctx) = Some err \<or>
             Err (Cancelation ctx) = None \<and> w = CancelSignal err) \<and>
          cim' = cim"
  proof (cases "table st k")
    case None
    with assms l show ?thesis by (simp add: lock_fresh)
  next
    case (Some r0)
    show ?thesis
    proof (cases "res_lock r0")
      case False
      with assms l Some show ?thesis by (simp add: lock_free)
    next
      case True
      with assms l Some show ?thesis
        by (auto simp: lock_held LockContext_held split: option.splits wait_end.splits)
    qed
  qed
  then show "\<exists>r'. table st k = Some r' \<and> res_lock r' \<and>
                (\<exists>st'. store cim' = Some st' \<and> table st' k = Some r')"
    and "Err (Cancelation ctx) = Some err \<or>
             Err (Cancelation ctx) = None \<and> w = CancelSignal err"
    and "cim' = cim"
    by blast+
qed

theorem lock_canceled_restores_refcount_witness:
  "store running_manager = Some busy_store \<and>
   (\<exists>r. table busy_store ''filestream-/var/log/a.log'' = Some r \<and> res_lock r \<and> pending r = 1) \<and>
   lock \<lparr>Cancelation = Canceler None\<rparr> (CancelSignal context_Canceled)
        ''filestream-/var/log/a.log'' running_manager
     = Some (Inl context_Canceled, running_manager) \<and>
   lock \<lparr>Cancelation = Canceler (Some context_Canceled)\<rparr> LockFreed
        ''filestream-/var/log/a.log'' running_manager
     = Some (Inl context_Canceled, running_manager)"
proof -
  let ?r = "\<lparr>key = ''filestream-/var/log/a.log'', res_lock = True, pending = 1\<rparr>"
  have h1: "store running_manager = Some busy_store"
    by (simp add: running_manager_def)
  have t: "table busy_store ''filestream-/var/log/a.log'' = Some ?r"
    by (simp add: busy_store_def)
  from lock_canceled_restores_refcount [OF h1, of "''filestream-/var/log/a.log''" ?r
         "\<lparr>Cancelation = Canceler None\<rparr>" context_Canceled "CancelSignal context_Canceled"]
       lock_canceled_restores_refcount [OF h1, of "''filestream-/var/log/a.log''" ?r
         "\<lparr>Cancelation = Canceler (Some context_Canceled)\<rparr>" context_Canceled LockFreed]
       h1 t
  show ?thesis by simp
qed

subsection \<open>Initialization happens once\<close>

lemma init_body_Configure: "Configure (init_body cim) = Configure cim"
  by (simp add: init_body_def openStore_def Let_def split: sum.splits prod.splits)

lemma init_Configure: "Configure (snd (init cim)) = Configure cim"
  by (simp add: init_eq init_body_Configure)

lemma init_body_access_calls:
  "access_calls (StateStore (init_body cim)) = access_calls (StateStore cim) + 1"
  by (simp add: init_body_def openStore_def Let_def split: sum.splits prod.splits)

lemma init_done: "initOnce cim \<Longrightarrow> init cim = (initErr cim, cim)"
  by (simp add: init_eq)

lemma init_sets_flag: "initOnce (snd (init cim))"
  by (simp add: init_eq)

lemma init_result_cached: "initErr (snd (init cim)) = fst (init cim)"
  by (simp add: init_eq)

lemma init_access_calls:
  "access_calls (StateStore (snd (init cim))) =
     access_calls (StateStore cim) + (if initOnce cim then 0 else 1)"
  by (simp add: init_eq init_body_access_calls)

lemma calls_init_done:
  "initOnce cim \<Longrightarrow> calls_init n cim = (replicate n (initErr cim), cim)"
  by (induction n) (simp_all add: init_done)

lemma calls_init_Suc:
  "calls_init (Suc n) cim = (replicate (Suc n) (fst (init cim)), snd (init cim))"
proof -
  obtain r cim1 where i: "init cim = (r, cim1)" by (cases "init cim")
  have "initOnce cim1" using init_sets_flag [of cim] i by simp
  moreover have "initErr cim1 = r" using init_result_cached [of cim] i by simp
  ultimately show ?thesis using i by (simp add: calls_init_done)
qed

lemma Create_done_state:
  "initOnce cim \<Longrightarrow> snd (Create config cim) = cim"
  by (simp add: Create_def init_done split: option.splits sum.splits prod.splits)

lemma Create_done_error:
  "initOnce cim \<Longrightarrow> initErr cim = Some e \<Longrightarrow> Create config cim = (Inl e, cim)"
  by (simp add: Create_def init_done)

lemma Init_done_error:
  "initOnce cim \<Longrightarrow> initErr cim = Some e \<Longrightarrow>
   Init grp mode cim = (if mode = ModeRun then Some e else None, cim, None)"
  by (simp add: Init_def init_done)

lemma Init_done_keeps:
  assumes "initOnce cim"
  shows "initOnce (fst (snd (Init grp mode cim))) \<and>
         initErr (fst (snd (Init grp mode cim))) = initErr cim \<and>
         StateStore (fst (snd (Init grp mode cim))) = StateStore cim"
  using assms
  by (simp add: Init_def init_done shutdown_def Let_def split: option.splits)

lemma Create_state: "snd (Create config cim) = snd (init cim)"
proof -
  obtain r cim1 where i: "init cim = (r, cim1)" by (cases "init cim")
  then show ?thesis
    by (simp add: Create_def split: option.splits sum.splits prod.splits)
qed

lemma Create_init_error:
  "fst (init cim) = Some e \<Longrightarrow> Create config cim = (Inl e, snd (init cim))"
proof -
  assume f: "fst (init cim) = Some e"
  obtain r cim1 where i: "init cim = (r, cim1)" by (cases "init cim")
  with f show ?thesis by (simp add: Create_def)
qed

lemma Init_run_init_error:
  "fst (init cim) = Some e \<Longrightarrow> Init grp ModeRun cim = (Some e, snd (init cim), None)"
proof -
  assume f: "fst (init cim) = Some e"
  obtain r cim1 where i: "init cim = (r, cim1)" by (cases "init cim")
  with f show ?thesis by (simp add: Init_def)
qed

lemma Init_run_keeps:
  "initOnce (fst (snd (Init grp ModeRun cim))) \<and>
   initErr (fst (snd (Init grp ModeRun cim))) = fst (init cim) \<and>
   StateStore (fst (snd (Init grp ModeRun cim))) = StateStore (snd (init cim))"
proof -
  obtain r cim1 where i: "init cim = (r, cim1)" by (cases "init cim")
  have "initOnce cim1" using init_sets_flag [of cim] i by simp
  moreover have "initErr cim1 = r" using init_result_cached [of cim] i by simp
  ultimately show ?thesis using i
    by (simp add: Init_def shutdown_def Let_def split: option.splits)
qed

text \<open>
  C3. The setup behind \<^verbatim>\<open>init\<close> (the function handed to the once-guard, which opens the
  store through \<^verbatim>\<open>Access()\<close>) runs at most once however often \<^verbatim>\<open>init\<close> is called, and its
  first outcome is what every later caller sees. A call of \<^verbatim>\<open>init\<close> leaves the guard set
  and the returned outcome cached, and it calls \<^verbatim>\<open>Access()\<close> once if the guard was unset
  and not at all if it was set. Once the guard is set, \<^verbatim>\<open>init\<close> returns the cached
  outcome and changes nothing; \<^verbatim>\<open>Create\<close> and \<^verbatim>\<open>Init\<close> keep the guard, the cached outcome
  and the number of \<^verbatim>\<open>Access()\<close> calls, and when the cached outcome is an error they
  return that same error and change nothing. Any number \<open>n > 0\<close> of \<^verbatim>\<open>init\<close> calls in a
  row returns \<open>n\<close> times the outcome of the first and calls \<^verbatim>\<open>Access()\<close> at most once.

  The first initialization usually happens inside \<^verbatim>\<open>Create\<close> or \<^verbatim>\<open>Init\<close>, so the same is
  stated for them on any manager, initialized or not. \<^verbatim>\<open>Create\<close> hands back exactly the
  manager that \<^verbatim>\<open>init\<close> alone leaves, and an error of \<^verbatim>\<open>init\<close> is the error of \<^verbatim>\<open>Create\<close>.
  \<^verbatim>\<open>Init\<close> in run mode hands back a manager with the guard set, the outcome of \<^verbatim>\<open>init\<close>
  cached and as many \<^verbatim>\<open>Access()\<close> calls as \<^verbatim>\<open>init\<close> alone makes, and an error of \<^verbatim>\<open>init\<close>
  is the error of \<^verbatim>\<open>Init\<close>, with the manager that \<^verbatim>\<open>init\<close> leaves and no task. Hence a
  \<^verbatim>\<open>Create\<close> that follows a \<^verbatim>\<open>Create\<close> or an \<^verbatim>\<open>Init\<close> in run mode changes nothing, makes no
  further \<^verbatim>\<open>Access()\<close> call, and fails with the error of the first initialization when
  there was one.
  (The once-guard makes concurrent callers wait for the running setup, so concurrent
  calls take effect in some order, one after the other.)
\<close>

theorem init_once_cached:
  "initOnce (snd (init cim)) \<and>
   initErr (snd (init cim)) = fst (init cim) \<and>
   access_calls (StateStore (snd (init cim))) =
     access_calls (StateStore cim) + (if initOnce cim then 0 else 1) \<and>
   (initOnce cim \<longrightarrow>
      init cim = (initErr cim, cim) \<and>
      snd (Create config cim) = cim \<and>
      initOnce (fst (snd (Init grp mode cim))) \<and>
      initErr (fst (snd (Init grp mode cim))) = initErr cim \<and>
      access_calls (StateStore (fst (snd (Init grp mode cim)))) =
        access_calls (StateStore cim) \<and>
      (\<forall>e. initErr cim = Some e \<longrightarrow>
         Create config cim = (Inl e, cim) \<and> Init grp ModeRun cim = (Some e, cim, None))) \<and>
   (0 < n \<longrightarrow>
      calls_init n cim = (replicate n (fst (init cim)), snd (init cim)) \<and>
      access_calls (StateStore (snd (calls_init n cim))) \<le> access_calls (StateStore cim) + 1) \<and>
   snd (Create config cim) = snd (init cim) \<and>
   (\<forall>e. fst (init cim) = Some e \<longrightarrow>
      Create config cim = (Inl e, snd (init cim)) \<and>
      Init grp ModeRun cim = (Some e, snd (init cim), None) \<and>
      Create config' (snd (Create config cim)) = (Inl e, snd (init cim)) \<and>
      Create config' (fst (snd (Init grp ModeRun cim))) = (Inl e, snd (init cim)) \<and>
      Init grp' ModeRun (snd (Create config cim)) = (Some e, snd (init cim), None)) \<and>
   initOnce (fst (snd (Init grp ModeRun cim))) \<and>
   initErr (fst (snd (Init grp ModeRun cim))) = fst (init cim) \<and>
   access_calls (StateStore (fst (snd (Init grp ModeRun cim)))) =
     access_calls (StateStore cim) + (if initOnce cim then 0 else 1) \<and>
   snd (Create config' (snd (Create config cim))) = snd (init cim) \<and>
   snd (Create config' (fst (snd (Init grp ModeRun cim)))) = fst (snd (Init grp ModeRun cim)) \<and>
   access_calls (StateStore (snd (Create config' (snd (Create config cim))))) \<le>
     access_calls (StateStore cim) + 1 \<and>
   access_calls (StateStore (snd (Create config' (fst (snd (Init grp ModeRun cim)))))) \<le>
     access_calls (StateStore cim) + 1 \<and>
   access_calls (StateStore (fst (snd (Init grp' ModeRun (snd (Create config cim)))))) \<le>
     access_calls (StateStore cim) + 1"
proof -
  let ?i = "snd (init cim)"
  let ?r = "fst (snd (Init grp ModeRun cim))"
  have flag: "initOnce ?i" by (rule init_sets_flag)
  have cached: "initErr ?i = fst (init cim)" by (rule init_result_cached)
  have count: "access_calls (StateStore ?i) =
     access_calls (StateStore cim) + (if initOnce cim then 0 else 1)"
    by (rule init_access_calls)
  have done_part: "initOnce cim \<longrightarrow>
      init cim = (initErr cim, cim) \<and>
      snd (Create config cim) = cim \<and>
      initOnce (fst (snd (Init grp mode cim))) \<and>
      initErr (fst (snd (Init grp mode cim))) = initErr cim \<and>
      access_calls (StateStore (fst (snd (Init grp mode cim)))) =
        access_calls (StateStore cim) \<and>
      (\<forall>e. initErr cim = Some e \<longrightarrow>
         Create config cim = (Inl e, cim) \<and> Init grp ModeRun cim = (Some e, cim, None))"
  proof (intro impI conjI allI)
    assume d: "initOnce cim"
    then show "init cim = (initErr cim, cim)" by (rule init_done)
    from d show "snd (Create config cim) = cim" by (rule Create_done_state)
    from d show "initOnce (fst (snd (Init grp mode cim)))" by (simp add: Init_done_keeps)
    from d show "initErr (fst (snd (Init grp mode cim))) = initErr cim"
      by (simp add: Init_done_keeps)
    from d show "access_calls (StateStore (fst (snd (Init grp mode cim)))) =
          access_calls (StateStore cim)"
      by (simp add: Init_done_keeps)
    fix e assume e: "initErr cim = Some e"
    from d e show "Create config cim = (Inl e, cim)" by (rule Create_done_error)
    from d e show "Init grp ModeRun cim = (Some e, cim, None)" by (simp add: Init_done_error)
  qed
  have row: "0 < n \<longrightarrow>
      calls_init n cim = (replicate n (fst (init cim)), snd (init cim)) \<and>
      access_calls (StateStore (snd (calls_init n cim))) \<le> access_calls (StateStore cim) + 1"
  proof (intro impI conjI)
    assume n: "0 < n"
    then obtain m where m: "n = Suc m" by (cases n) auto
    show c: "calls_init n cim = (replicate n (fst (init cim)), snd (init cim))"
      unfolding m by (rule calls_init_Suc)
    show "access_calls (StateStore (snd (calls_init n cim))) \<le> access_calls (StateStore cim) + 1"
      by (simp add: c init_access_calls)
  qed
  have cs: "snd (Create config cim) = ?i" by (rule Create_state)
  have rflag: "initOnce ?r" by (simp add: Init_run_keeps)
  have rcached: "initErr ?r = fst (init cim)" by (simp add: Init_run_keeps)
  have rstore: "StateStore ?r = StateStore ?i" by (simp add: Init_run_keeps)
  have rcount: "access_calls (StateStore ?r) =
     access_calls (StateStore cim) + (if initOnce cim then 0 else 1)"
    by (simp add: rstore count)
  have cc: "snd (Create config' (snd (Create config cim))) = ?i"
    by (simp add: cs Create_done_state flag)
  have rc: "snd (Create config' ?r) = ?r"
    by (simp add: Create_done_state rflag)
  have ccount: "access_calls (StateStore (snd (Create config' (snd (Create config cim))))) \<le>
     access_calls (StateStore cim) + 1"
    by (simp add: cc count)
  have rccount: "access_calls (StateStore (snd (Create config' ?r))) \<le>
     access_calls (StateStore cim) + 1"
    by (simp add: rc rcount)
  have crcount: "access_calls (StateStore (fst (snd (Init grp' ModeRun (snd (Create config cim)))))) \<le>
     access_calls (StateStore cim) + 1"
    using Init_done_keeps [OF flag, of grp' ModeRun] by (simp add: cs count)
  have errs: "\<forall>e. fst (init cim) = Some e \<longrightarrow>
      Create config cim = (Inl e, ?i) \<and>
      Init grp ModeRun cim = (Some e, ?i, None) \<and>
      Create config' (snd (Create config cim)) = (Inl e, ?i) \<and>
      Create config' ?r = (Inl e, ?i) \<and>
      Init grp' ModeRun (snd (Create config cim)) = (Some e, ?i, None)"
  proof (intro allI impI conjI)
    fix e assume f: "fst (init cim) = Some e"
    then have ie: "initErr ?i = Some e" by (simp add: cached)
    from f show c1: "Create config cim = (Inl e, ?i)" by (rule Create_init_error)
    from f show r1: "Init grp ModeRun cim = (Some e, ?i, None)" by (rule Init_run_init_error)
    show "Create config' (snd (Create config cim)) = (Inl e, ?i)"
      by (simp add: cs Create_done_error [OF flag ie])
    show "Create config' ?r = (Inl e, ?i)"
      by (simp add: r1 Create_done_error [OF flag ie])
    show "Init grp' ModeRun (snd (Create config cim)) = (Some e, ?i, None)"
      by (simp add: cs Init_done_error [OF flag ie])
  qed
  from flag cached count done_part row cs errs rflag rcached rcount cc rc ccount rccount crcount
  show ?thesis by blast
qed

theorem init_once_cached_witness:
  "fst (init offline_manager) = Some registry_unavailable \<and>
   initOnce (snd (init offline_manager)) \<and>
   Access (StateStore (snd (init offline_manager))) 1 = Inr 7 \<and>
   init (snd (init offline_manager)) = (Some registry_unavailable, snd (init offline_manager)) \<and>
   Create plain_config (snd (init offline_manager)) =
     (Inl registry_unavailable, snd (init offline_manager)) \<and>
   Init (Group None) ModeRun (snd (init offline_manager)) =
     (Some registry_unavailable, snd (init offline_manager), None) \<and>
   fst (calls_init 3 offline_manager) =
     [Some registry_unavailable, Some registry_unavailable, Some registry_unavailable] \<and>
   access_calls (StateStore offline_manager) = 0 \<and>
   access_calls (StateStore (snd (calls_init 3 offline_manager))) = 1 \<and>
   \<not> initOnce offline_manager \<and>
   Create plain_config offline_manager =
     (Inl registry_unavailable, snd (init offline_manager)) \<and>
   Init (Group None) ModeRun offline_manager =
     (Some registry_unavailable, snd (init offline_manager), None) \<and>
   Create plain_config (snd (Create plain_config offline_manager)) =
     (Inl registry_unavailable, snd (init offline_manager)) \<and>
   Create plain_config (fst (snd (Init (Group None) ModeRun offline_manager))) =
     (Inl registry_unavailable, snd (init offline_manager)) \<and>
   access_calls (StateStore (snd (Create plain_config (snd (Create plain_config offline_manager)))))
     = 1 \<and>
   access_calls (StateStore (fst (snd (Init (Group None) ModeRun offline_manager)))) = 1"
proof -
  let ?m = "snd (init offline_manager)"
  have f: "fst (init offline_manager) = Some registry_unavailable"
    by (simp add: init_eq init_body_def openStore_def offline_manager_def
                  filestream_manager_def flaky_backend_def)
  have a: "Access (StateStore ?m) 1 = Inr 7"
    by (simp add: init_eq init_body_def openStore_def offline_manager_def
                  filestream_manager_def flaky_backend_def)
  have z: "access_calls (StateStore offline_manager) = 0" "\<not> initOnce offline_manager"
    by (simp_all add: offline_manager_def filestream_manager_def flaky_backend_def)
  have three: "replicate 3 x = [x, x, x]" for x :: "error option"
    by (simp add: numeral_3_eq_3)
  from init_once_cached [of offline_manager plain_config "Group None" ModeRun 3
                            plain_config "Group None"]
       init_once_cached [of ?m plain_config "Group None" ModeRun 3 plain_config "Group None"]
       f a z three
  show ?thesis by simp
qed

subsection \<open>What Create rejects\<close>

text \<open>
  C4, with the order of the checks spelled out. Whenever \<^verbatim>\<open>Create\<close> reaches the \<^verbatim>\<open>Configure\<close> callback (the initialization
  succeeded and the options unpacked) and the callback reports no error: \<^verbatim>\<open>Create\<close>
  fails with "no source has been configured" if the returned source list is empty,
  whatever the runner; it fails with "no input runner available" if the list is not
  empty and the runner is nil. In both cases no managed input is returned and \<^verbatim>\<open>Create\<close>
  does nothing to the manager or its store beyond the one-time initialization: the
  manager is the one \<^verbatim>\<open>init\<close> alone leaves, and it is unchanged when the manager was
  initialized before. No resource is created.
\<close>

theorem Create_validation:
  assumes "init cim = (None, cim1)" and "malformed config = None"
    and "Configure cim config = (srcs, inp, None)"
  shows "(srcs = [] \<longrightarrow> Create config cim = (Inl errNoSourceConfigured, cim1)) \<and>
         (srcs \<noteq> [] \<and> inp = None \<longrightarrow> Create config cim = (Inl errNoInputRunner, cim1)) \<and>
         (initOnce cim \<longrightarrow> cim1 = cim)"
proof -
  have "Configure cim1 = Configure cim"
    using init_Configure [of cim] assms(1) by simp
  with assms have c: "Configure cim1 config = (srcs, inp, None)" by simp
  have "initOnce cim \<longrightarrow> cim1 = cim"
    using assms(1) by (auto simp: init_done)
  with assms(1,2) c show ?thesis
    by (simp add: Create_def Unpack_def)
qed

theorem Create_validation_witness:
  "fst (init unconfigured_manager) = None \<and> fst (init runnerless_manager) = None \<and>
   malformed plain_config = None \<and>
   Configure unconfigured_manager plain_config = ([], None, None) \<and>
   Configure runnerless_manager plain_config = ([Source ''/var/log/a.log''], None, None) \<and>
   Create plain_config unconfigured_manager =
     (Inl errNoSourceConfigured, snd (init unconfigured_manager)) \<and>
   Create plain_config runnerless_manager =
     (Inl errNoInputRunner, snd (init runnerless_manager))"
proof -
  have u: "fst (init unconfigured_manager) = None"
    by (simp add: init_eq init_body_def openStore_def unconfigured_manager_def
                  filestream_manager_def memory_backend_def)
  have r: "fst (init runnerless_manager) = None"
    by (simp add: init_eq init_body_def openStore_def runnerless_manager_def
                  filestream_manager_def memory_backend_def)
  have iu: "init unconfigured_manager = (None, snd (init unconfigured_manager))"
    using u by (metis prod.collapse)
  have ir: "init runnerless_manager = (None, snd (init runnerless_manager))"
    using r by (metis prod.collapse)
  have m: "malformed plain_config = None" by (simp add: plain_config_def)
  have cu: "Configure unconfigured_manager plain_config = ([], None, None)"
    by (simp add: unconfigured_manager_def)
  have cr: "Configure runnerless_manager plain_config = ([Source ''/var/log/a.log''], None, None)"
    by (simp add: runnerless_manager_def)
  from Create_validation [OF iu m cu] Create_validation [OF ir m cr] u r m cu cr
  show ?thesis by simp
qed

text \<open>
  Read literally, C4 asks for the "no input runner available" error whenever the
  callback returns a nil runner. A callback that returns neither a source nor a runner
  gets the "no source has been configured" error instead, because the source list is
  checked first; and this first \<^verbatim>\<open>Create\<close> on the manager has opened its store.
\<close>

theorem Create_nil_runner_counterexample:
  "Configure unconfigured_manager plain_config = ([], None, None) \<and>
   fst (Create plain_config unconfigured_manager) = Inl errNoSourceConfigured \<and>
   fst (Create plain_config unconfigured_manager) \<noteq> Inl errNoInputRunner \<and>
   store unconfigured_manager = None \<and>
   store (snd (Create plain_config unconfigured_manager)) \<noteq> None"
  by (simp add: Create_def init_eq init_body_def openStore_def Unpack_def
                unconfigured_manager_def filestream_manager_def memory_backend_def
                plain_config_def errNoSourceConfigured_def errNoInputRunner_def)

subsection \<open>The format of a source key\<close>

text \<open>
  C5. The key of a source is the namespace, a hyphen and the source name when the id is
  empty, and the namespace, a hyphen, the id in square brackets, a hyphen and the source
  name when it is not. For the namespace "filestream" and the source "/var/log/a.log"
  this is "filestream-/var/log/a.log" with the empty id and
  "filestream-[custom]-/var/log/a.log" with the id "custom".
\<close>

theorem createSourceID_format:
  "createSourceID cim inp s =
     (if mi_ID inp = [] then Type cim @ ''-'' @ Name s
      else Type cim @ ''-['' @ mi_ID inp @ '']-'' @ Name s) \<and>
   createSourceID filestream_manager
     \<lparr>mi_ID = [], sources = [Source ''/var/log/a.log''], mi_input = Input ''tail'',
      cleanTimeout = 0\<rparr> (Source ''/var/log/a.log'') = ''filestream-/var/log/a.log'' \<and>
   createSourceID filestream_manager
     \<lparr>mi_ID = ''custom'', sources = [Source ''/var/log/a.log''], mi_input = Input ''tail'',
      cleanTimeout = 0\<rparr> (Source ''/var/log/a.log'') = ''filestream-[custom]-/var/log/a.log''"
  by (simp add: createSourceID_def filestream_manager_def)

end
